theory Spec2Isabelle
  imports Complex_Main "HOL-Library.Word"
begin

section \<open>JavaScript strings\<close>

text \<open>
  A string is a list of code units. The model covers the code units below 0x100
  (the Latin-1 range); \<open>trim\<close> and \<open>toLowerCase\<close> act on that range as the
  JavaScript operations do. Code units above it are outside the model.
\<close>

definition is_js_space :: "char \<Rightarrow> bool" where
  \<comment> \<open>WhiteSpace and LineTerminator of ECMAScript, below 0x100\<close>
  "is_js_space c =
     (c \<in> set [CHR 0x09, CHR 0x0A, CHR 0x0B, CHR 0x0C, CHR 0x0D, CHR 0x20, CHR 0xA0])"

definition trim :: "string \<Rightarrow> string" where
  "trim s = rev (dropWhile is_js_space (rev (dropWhile is_js_space s)))"

definition case_table :: "(char \<times> char) list" where
  "case_table =
     zip ''ABCDEFGHIJKLMNOPQRSTUVWXYZ'' ''abcdefghijklmnopqrstuvwxyz'' @
     zip [CHR 0xC0, CHR 0xC1, CHR 0xC2, CHR 0xC3, CHR 0xC4, CHR 0xC5, CHR 0xC6, CHR 0xC7,
          CHR 0xC8, CHR 0xC9, CHR 0xCA, CHR 0xCB, CHR 0xCC, CHR 0xCD, CHR 0xCE, CHR 0xCF,
          CHR 0xD0, CHR 0xD1, CHR 0xD2, CHR 0xD3, CHR 0xD4, CHR 0xD5, CHR 0xD6, CHR 0xD8,
          CHR 0xD9, CHR 0xDA, CHR 0xDB, CHR 0xDC, CHR 0xDD, CHR 0xDE]
         [CHR 0xE0, CHR 0xE1, CHR 0xE2, CHR 0xE3, CHR 0xE4, CHR 0xE5, CHR 0xE6, CHR 0xE7,
          CHR 0xE8, CHR 0xE9, CHR 0xEA, CHR 0xEB, CHR 0xEC, CHR 0xED, CHR 0xEE, CHR 0xEF,
          CHR 0xF0, CHR 0xF1, CHR 0xF2, CHR 0xF3, CHR 0xF4, CHR 0xF5, CHR 0xF6, CHR 0xF8,
          CHR 0xF9, CHR 0xFA, CHR 0xFB, CHR 0xFC, CHR 0xFD, CHR 0xFE]"

definition toLowerCase_char :: "char \<Rightarrow> char" where
  "toLowerCase_char c = (case map_of case_table c of Some l \<Rightarrow> l | None \<Rightarrow> c)"

definition toLowerCase :: "string \<Rightarrow> string" where
  "toLowerCase s = map toLowerCase_char s"

definition startsWith :: "string \<Rightarrow> string \<Rightarrow> bool" where
  "startsWith s p = (take (length p) s = p)"

definition endsWith :: "string \<Rightarrow> string \<Rightarrow> bool" where
  "endsWith s p = (length p \<le> length s \<and> drop (length s - length p) s = p)"

fun includes_str :: "string \<Rightarrow> string \<Rightarrow> bool" where
  "includes_str [] p = (p = [])"
| "includes_str (c # cs) p = (startsWith (c # cs) p \<or> includes_str cs p)"

definition or_else :: "string option \<Rightarrow> string \<Rightarrow> string" where
  \<comment> \<open>\<open>v || d\<close> on a value that is a string, \<open>undefined\<close> or \<open>null\<close>\<close>
  "or_else v d = (case v of None \<Rightarrow> d | Some s \<Rightarrow> if s = [] then d else s)"

definition nl :: string where
  "nl = [CHR 0x0A]"

definition dq :: string where
  "dq = [CHR 0x22]"

definition apostrophe :: string where
  "apostrophe = [CHR 0x27]"


subsection \<open>\<open>path.join\<close> on a POSIX host\<close>

text \<open>
  Node's \<open>path.posix.join\<close> for two arguments: the non-empty arguments joined by a
  slash, then normalised as \<open>normalizeString\<close> of Node's \<open>path\<close> module does: empty
  and \<open>.\<close> segments are dropped, \<open>..\<close> takes back the segment before it, a leading
  and a trailing slash are kept.
\<close>

fun split_path :: "string \<Rightarrow> string list" where
  "split_path [] = [[]]"
| "split_path (c # cs) =
     (if c = CHR ''/'' then [] # split_path cs
      else (case split_path cs of [] \<Rightarrow> [[c]] | seg # segs \<Rightarrow> (c # seg) # segs))"

fun normalize_segments :: "bool \<Rightarrow> string list \<Rightarrow> string list \<Rightarrow> string list" where
  "normalize_segments allowAboveRoot res [] = rev res"
| "normalize_segments allowAboveRoot res (seg # segs) =
     (if seg = [] \<or> seg = ''.'' then normalize_segments allowAboveRoot res segs
      else if seg = ''..'' then
        (case res of
           [] \<Rightarrow> normalize_segments allowAboveRoot (if allowAboveRoot then [''..''] else []) segs
         | r # rs \<Rightarrow>
             if r = ''..'' then normalize_segments allowAboveRoot (if allowAboveRoot then ''..'' # res else res) segs
             else normalize_segments allowAboveRoot rs segs)
      else normalize_segments allowAboveRoot (seg # res) segs)"

fun join_segments :: "string list \<Rightarrow> string" where
  "join_segments [] = []"
| "join_segments [seg] = seg"
| "join_segments (seg # segs) = seg @ ''/'' @ join_segments segs"

definition posix_normalize :: "string \<Rightarrow> string" where
  "posix_normalize p =
     (case p of
        [] \<Rightarrow> ''.''
      | c # cs \<Rightarrow>
          (let isAbsolute = (c = CHR ''/'');
               trailingSeparator = (last p = CHR ''/'');
               body = join_segments (normalize_segments (\<not> isAbsolute) [] (split_path p))
           in if body = [] then (if isAbsolute then ''/'' else if trailingSeparator then ''./'' else ''.'')
              else (if isAbsolute then ''/'' else []) @ body @ (if trailingSeparator then ''/'' else [])))"

definition posix_join :: "string \<Rightarrow> string \<Rightarrow> string" where
  "posix_join a b =
     (if a = [] \<and> b = [] then ''.''
      else posix_normalize (if a = [] then b else if b = [] then a else a @ ''/'' @ b))"



section \<open>The main process: \<open>electron/ipcHandlers.ts\<close>\<close>

subsection \<open>Values, requests and the host\<close>

type_synonym bytes = "8 word list"

text \<open>\<open>new Error(message)\<close>; every \<open>throw\<close> and rejected promise is an \<open>Inl\<close>.\<close>

datatype exn = Error string

fun message_of :: "exn \<Rightarrow> string" where
  "message_of (Error m) = m"

text \<open>\<open>buffer.toString('base64')\<close>: the encoding is kept symbolic, as the bytes it encodes.\<close>

datatype base64 = Base64 bytes

datatype content_part = TextPart string | InputAudio base64 string

datatype message_content = Plain string | Parts "content_part list"

record chat_message =
  role :: string
  content :: message_content

record chat_request =
  chat_apiKey :: string
  baseURL :: "string option"
  defaultHeaders :: "(string \<times> string) list"
  model :: string
  messages :: "chat_message list"
  max_tokens :: nat
  temperature :: real

record transcription_request =
  upload_apiKey :: string
  file_path :: string
  file_data :: bytes
  upload_model :: string
  language :: string

datatype request = ChatCompletions chat_request | AudioTranscriptions transcription_request

text \<open>
  A chat completion as the handlers read it: the list \<open>choices\<close>, each choice with an
  optional \<open>message\<close>, each message with an optional \<open>content\<close>.
\<close>

datatype reply_message = Message "string option"

datatype choice = Choice "reply_message option"

type_synonym completion = "choice list"

definition first_content :: "completion \<Rightarrow> string option" where
  \<comment> \<open>\<open>completion.choices[0]?.message?.content\<close>\<close>
  "first_content c =
     (case c of
        [] \<Rightarrow> None
      | Choice None # _ \<Rightarrow> None
      | Choice (Some (Message x)) # _ \<Rightarrow> x)"

text \<open>
  What the external transcoder does with the input file: the event it emits and the
  file, if any, it leaves at the output path.
\<close>

datatype ffmpeg_result = OnEnd "bytes option" | OnError string "bytes option"

text \<open>
  Everything the handlers take from outside the file: the configuration helper
  (\<open>configHelper\<close>, not part of the sources at hand), the temporary directory,
  \<open>path.join\<close> of the platform the host runs on, the readings of \<open>Date.now()\<close> as
  the template strings print them, the faults of \<open>fs.writeFileSync\<close>, the transcoder
  and the two providers.
\<close>

record host =
  hasApiKey :: bool
  apiKey :: "string option"
  solutionModel :: "string option"
  tmpdir :: string
  path_join :: "string \<Rightarrow> string \<Rightarrow> string"
  now_input :: string
  now_output :: string
  now_upload :: string
  write_fault :: "string \<Rightarrow> string option"
  ffmpeg :: "bytes \<Rightarrow> ffmpeg_result"
  chat_completions :: "chat_request \<Rightarrow> exn + completion"
  audio_transcriptions :: "transcription_request \<Rightarrow> exn + string"

text \<open>
  The state the handlers change: the files on disk and the requests sent so far.
  \<open>conversions\<close> records the buffers handed to \<open>convertWebMToWAV\<close>.
\<close>

record world =
  files :: "string \<rightharpoonup> bytes"
  requests :: "request list"
  conversions :: "bytes list"

definition writeFileSync :: "host \<Rightarrow> string \<Rightarrow> bytes \<Rightarrow> world \<Rightarrow> exn + world" where
  "writeFileSync h p data w =
     (case write_fault h p of
        Some m \<Rightarrow> Inl (Error m)
      | None \<Rightarrow> Inr (w\<lparr>files := (files w)(p \<mapsto> data)\<rparr>))"

definition readFileSync :: "string \<Rightarrow> world \<Rightarrow> exn + bytes" where
  "readFileSync p w =
     (case files w p of
        None \<Rightarrow> Inl (Error (''ENOENT: no such file or directory, open '' @ apostrophe @ p @ apostrophe))
      | Some data \<Rightarrow> Inr data)"

definition try_unlinkSync :: "string \<Rightarrow> world \<Rightarrow> world" where
  \<comment> \<open>\<open>try { fs.unlinkSync(p) } catch {}\<close>\<close>
  "try_unlinkSync p w = w\<lparr>files := (files w)(p := None)\<rparr>"

definition run_ffmpeg :: "host \<Rightarrow> string \<Rightarrow> string \<Rightarrow> world \<Rightarrow> (string option) \<times> world" where
  \<comment> \<open>\<open>ffmpeg(inputPath)...save(outputPath)\<close>: \<open>None\<close> is the event \<open>end\<close>, \<open>Some m\<close> the event \<open>error\<close>\<close>
  "run_ffmpeg h inputPath outputPath w =
     (case files w inputPath of
        None \<Rightarrow> (Some (inputPath @ '': No such file or directory''), w)
      | Some webm \<Rightarrow>
          (case ffmpeg h webm of
             OnEnd out \<Rightarrow>
               (None, w\<lparr>files := (case out of None \<Rightarrow> files w
                                   | Some wav \<Rightarrow> (files w)(outputPath \<mapsto> wav))\<rparr>)
           | OnError m out \<Rightarrow>
               (Some m, w\<lparr>files := (case out of None \<Rightarrow> files w
                                     | Some wav \<Rightarrow> (files w)(outputPath \<mapsto> wav))\<rparr>)))"

subsection \<open>\<open>convertWebMToWAV\<close>\<close>

definition inputPath_of :: "host \<Rightarrow> string" where
  "inputPath_of h = path_join h (tmpdir h) (''input_'' @ now_input h @ ''.webm'')"

definition outputPath_of :: "host \<Rightarrow> string" where
  "outputPath_of h = path_join h (tmpdir h) (''output_'' @ now_output h @ ''.wav'')"

definition convertWebMToWAV :: "host \<Rightarrow> bytes \<Rightarrow> world \<Rightarrow> (exn + bytes) \<times> world" where
  "convertWebMToWAV h webmBuffer w0 =
     (let w = w0\<lparr>conversions := conversions w0 @ [webmBuffer]\<rparr>;
          inputPath = inputPath_of h;
          outputPath = outputPath_of h
      in case writeFileSync h inputPath webmBuffer w of
           Inl e \<Rightarrow>
             (Inl (Error (''WebM to WAV conversion setup failed: '' @ message_of e)),
              try_unlinkSync outputPath (try_unlinkSync inputPath w))
         | Inr w1 \<Rightarrow>
             (case run_ffmpeg h inputPath outputPath w1 of
                (None, w2) \<Rightarrow>
                  (case readFileSync outputPath w2 of
                     Inl readError \<Rightarrow>
                       (Inl (Error (''Failed to read converted WAV file: '' @ message_of readError)), w2)
                   | Inr wavBuffer \<Rightarrow>
                       (Inr wavBuffer, try_unlinkSync outputPath (try_unlinkSync inputPath w2)))
              | (Some m, w2) \<Rightarrow>
                  (Inl (Error (''FFmpeg conversion failed: '' @ m)),
                   try_unlinkSync outputPath (try_unlinkSync inputPath w2))))"

subsection \<open>The handler \<open>transcribe-audio\<close>\<close>

definition isWebM :: "string \<Rightarrow> bool" where
  "isWebM filename = includes_str (toLowerCase filename) ''webm''"

definition isMp3 :: "string \<Rightarrow> bool" where
  "isMp3 filename = endsWith (toLowerCase filename) ''.mp3''"

definition audioFormat_of :: "string \<Rightarrow> string" where
  "audioFormat_of filename = (if isMp3 filename then ''mp3'' else ''wav'')"

definition openrouter_headers :: "(string \<times> string) list" where
  "openrouter_headers =
     [(''HTTP-Referer'', ''https://github.com/your-repo''),
      (''X-Title'', ''OIC - Online Interview Companion'')]"

definition transcription_instruction :: string where
  "transcription_instruction =
     ''Please transcribe this audio file. Return only the transcribed text without any additional commentary.''"

definition openrouter_audio_request :: "string \<Rightarrow> bytes \<Rightarrow> string \<Rightarrow> chat_request" where
  "openrouter_audio_request k processedAudioBuffer finalFormat =
     \<lparr>chat_apiKey = k,
      baseURL = Some ''https://openrouter.ai/api/v1'',
      defaultHeaders = openrouter_headers,
      model = ''openai/gpt-4o-audio-preview'',
      messages =
        [\<lparr>role = ''user'',
          content = Parts [TextPart transcription_instruction,
                           InputAudio (Base64 processedAudioBuffer) finalFormat]\<rparr>],
      max_tokens = 500,
      temperature = 0.1\<rparr>"

definition send_chat :: "host \<Rightarrow> chat_request \<Rightarrow> world \<Rightarrow> (exn + completion) \<times> world" where
  \<comment> \<open>\<open>await openai.chat.completions.create(r)\<close>\<close>
  "send_chat h r w = (chat_completions h r, w\<lparr>requests := requests w @ [ChatCompletions r]\<rparr>)"

definition submit_audio :: "host \<Rightarrow> string \<Rightarrow> bytes \<Rightarrow> string \<Rightarrow> world \<Rightarrow> (exn + string) \<times> world" where
  \<comment> \<open>lines 468 to 497: the chat request with the audio part, and the text of its first choice\<close>
  "submit_audio h k processedAudioBuffer finalFormat w =
     (case send_chat h (openrouter_audio_request k processedAudioBuffer finalFormat) w of
        (Inl e, w') \<Rightarrow> (Inl e, w')
      | (Inr c, w') \<Rightarrow> (Inr (or_else (first_content c) []), w'))"

definition transcribe_openrouter :: "host \<Rightarrow> string \<Rightarrow> bytes \<Rightarrow> string \<Rightarrow> world \<Rightarrow> (exn + string) \<times> world" where
  "transcribe_openrouter h k audioBuffer filename w =
     (if isWebM filename then
        (case convertWebMToWAV h audioBuffer w of
           (Inl conversionError, w1) \<Rightarrow>
             (Inl (Error (''Failed to convert WebM audio to WAV format: '' @ message_of conversionError @
                          ''. Please ensure FFmpeg is properly installed.'')), w1)
         | (Inr wav, w1) \<Rightarrow> submit_audio h k wav ''wav'' w1)
      else submit_audio h k audioBuffer (audioFormat_of filename) w)"

definition tempFilePath_of :: "host \<Rightarrow> string \<Rightarrow> string" where
  "tempFilePath_of h filename =
     path_join h (tmpdir h) (''temp_audio_'' @ now_upload h @ ''_'' @ filename)"

definition whisper_request :: "string \<Rightarrow> string \<Rightarrow> bytes \<Rightarrow> transcription_request" where
  "whisper_request k p data =
     \<lparr>upload_apiKey = k, file_path = p, file_data = data,
      upload_model = ''whisper-1'', language = ''en''\<rparr>"

definition transcribe_whisper :: "host \<Rightarrow> string \<Rightarrow> bytes \<Rightarrow> string \<Rightarrow> world \<Rightarrow> (exn + string) \<times> world" where
  \<comment> \<open>the write is before the \<open>try\<close>; the \<open>finally\<close> unlinks on both outcomes of the upload\<close>
  "transcribe_whisper h k audioBuffer filename w =
     (let tempFilePath = tempFilePath_of h filename
      in case writeFileSync h tempFilePath audioBuffer w of
           Inl e \<Rightarrow> (Inl e, w)
         | Inr w1 \<Rightarrow>
             (case readFileSync tempFilePath w1 of
                Inl e \<Rightarrow> (Inl e, try_unlinkSync tempFilePath w1)
              | Inr data \<Rightarrow>
                  (audio_transcriptions h (whisper_request k tempFilePath data),
                   try_unlinkSync tempFilePath
                     (w1\<lparr>requests := requests w1 @
                          [AudioTranscriptions (whisper_request k tempFilePath data)]\<rparr>))))"

definition transcribe_audio :: "host \<Rightarrow> bytes \<Rightarrow> string \<Rightarrow> world \<Rightarrow> (exn + string) \<times> world" where
  "transcribe_audio h audioBuffer filename w =
     (if \<not> hasApiKey h then (Inl (Error ''API key is required for audio transcription''), w)
      else case apiKey h of
             None \<Rightarrow> (Inl (Error ''API key not found''), w)
           | Some k \<Rightarrow>
               if k = [] then (Inl (Error ''API key not found''), w)
               else if startsWith k ''sk-or-'' then transcribe_openrouter h k audioBuffer filename w
               else transcribe_whisper h k audioBuffer filename w)"

subsection \<open>The handler \<open>generate-behavioral-answer\<close>\<close>

definition behavioral_prompt :: "string \<Rightarrow> string" where
  "behavioral_prompt question =
     ''You are an expert interview coach helping someone prepare for behavioral interviews. '' @ nl @
     nl @
     ''The interviewer asked: '' @ dq @ question @ dq @ nl @
     nl @
     ''Please provide a comprehensive, professional answer using the STAR method (Situation, Task, Action, Result). The answer should:'' @ nl @
     ''1. Be specific and detailed'' @ nl @
     ''2. Show leadership, problem-solving, or relevant skills'' @ nl @
     ''3. Include quantifiable results when possible'' @ nl @
     ''4. Be authentic and conversational'' @ nl @
     ''5. Be around 2-3 minutes when spoken (approximately 300-450 words)'' @ nl @
     nl @
     ''Provide only the answer, without any prefacing text like '' @ dq @ ''Here'' @ apostrophe @
     ''s a good answer:'' @ dq @ '' or similar.''"

definition system_persona :: string where
  "system_persona =
     ''You are an expert interview coach specializing in behavioral interview questions. Provide detailed, professional answers using the STAR method.''"

definition fallback_answer :: string where
  "fallback_answer =
     ''I apologize, but I couldn'' @ apostrophe @ ''t generate an answer for this question.''"

definition generation_request :: "host \<Rightarrow> string \<Rightarrow> string \<Rightarrow> chat_request" where
  "generation_request h k question =
     \<lparr>chat_apiKey = k,
      baseURL = (if startsWith k ''sk-or-'' then Some ''https://openrouter.ai/api/v1'' else None),
      defaultHeaders = (if startsWith k ''sk-or-'' then openrouter_headers else []),
      model = (if startsWith k ''sk-or-'' then or_else (solutionModel h) ''openai/gpt-4o''
               else or_else (solutionModel h) ''gpt-4o''),
      messages =
        [\<lparr>role = ''system'', content = Plain system_persona\<rparr>,
         \<lparr>role = ''user'', content = Plain (behavioral_prompt question)\<rparr>],
      max_tokens = 600,
      temperature = 0.7\<rparr>"

definition generate_behavioral_answer :: "host \<Rightarrow> string \<Rightarrow> world \<Rightarrow> (exn + string) \<times> world" where
  "generate_behavioral_answer h question w =
     (if \<not> hasApiKey h then (Inl (Error ''API key is required for answer generation''), w)
      else case apiKey h of
             None \<Rightarrow> (Inl (Error ''API key not found''), w)
           | Some k \<Rightarrow>
               if k = [] then (Inl (Error ''API key not found''), w)
               else (case send_chat h (generation_request h k question) w of
                       (Inl e, w') \<Rightarrow> (Inl e, w')
                     | (Inr c, w') \<Rightarrow> (Inr (or_else (first_content c) fallback_answer), w')))"

section \<open>The renderer: \<open>src/components/AudioRecorder.tsx\<close>\<close>

subsection \<open>State and observable effects\<close>

datatype variant = success | neutral | error

text \<open>
  What the component does that its surroundings can observe, in order: the toasts,
  the calls through \<open>window.electronAPI\<close> and the callback \<open>onTranscriptionComplete\<close>.
\<close>

datatype event =
    ShowToast string string variant
  | TranscribeAudio bytes string
  | GenerateBehavioralAnswer string
  | OnTranscriptionComplete string string

record blob =
  blob_data :: bytes
  blob_type :: string

text \<open>
  A \<open>MediaRecorder\<close> with the variables its handlers close over: the chosen type, the
  file extension and the stream (a number that names it).
\<close>

record media_recorder =
  mimeType :: string
  fileExtension :: string
  stream :: nat

text \<open>
  The component's state (\<open>useState\<close>), its references (\<open>useRef\<close>) and the device:
  \<open>live_streams\<close> are the streams handed out by \<open>getUserMedia\<close> whose tracks have not
  been stopped.
\<close>

record recorder_state =
  isRecording :: bool
  isProcessing :: bool
  audioBlob :: "blob option"
  transcription :: string
  answer :: string
  audioFormat :: string
  mediaRecorderRef :: "media_recorder option"
  audioChunksRef :: "bytes list"
  live_streams :: "nat list"
  next_stream :: nat

definition initial_state :: recorder_state where
  "initial_state =
     \<lparr>isRecording = False, isProcessing = False, audioBlob = None, transcription = [],
      answer = [], audioFormat = ''webm'', mediaRecorderRef = None, audioChunksRef = [],
      live_streams = [], next_stream = 0\<rparr>"

text \<open>
  The browser as \<open>startRecording\<close> meets it: whether \<open>getUserMedia\<close> resolves, what
  \<open>MediaRecorder.isTypeSupported\<close> answers, whether the constructor accepts a type and
  whether \<open>start\<close> returns (each of the last two throws otherwise).
\<close>

record browser =
  getUserMedia_resolves :: bool
  isTypeSupported :: "string \<Rightarrow> bool"
  constructor_accepts :: "string \<Rightarrow> bool"
  start_returns :: bool

subsection \<open>\<open>startRecording\<close>, \<open>stopRecording\<close>\<close>

definition webm_notice :: event where
  "webm_notice =
     ShowToast ''Info''
       ''Recording in WebM format. Will be converted to WAV for OpenRouter compatibility.'' neutral"

definition start_failed :: event where
  "start_failed =
     ShowToast ''Error'' ''Failed to start recording. Please check microphone permissions.'' error"

definition select_mimeType :: "(string \<Rightarrow> bool) \<Rightarrow> string \<times> string \<times> event list" where
  \<comment> \<open>lines 33 to 62: the type, the file extension and the toast of the last branch\<close>
  "select_mimeType supported =
     (if supported ''audio/mp3'' then (''audio/mp3'', ''mp3'', [])
      else if supported ''audio/wav'' then (''audio/wav'', ''wav'', [])
      else if supported ''audio/wave'' then (''audio/wave'', ''wav'', [])
      else if supported ''audio/x-wav'' then (''audio/x-wav'', ''wav'', [])
      else (''audio/webm;codecs=opus'', ''webm'', [webm_notice]))"

definition startRecording :: "browser \<Rightarrow> recorder_state \<Rightarrow> recorder_state \<times> event list" where
  "startRecording b s =
     (if \<not> getUserMedia_resolves b then (s, [start_failed])
      else
        (let sid = next_stream s;
             s1 = s\<lparr>live_streams := live_streams s @ [sid], next_stream := Suc sid\<rparr>
         in case select_mimeType (isTypeSupported b) of
              (mime, ext, notices) \<Rightarrow>
                if \<not> constructor_accepts b mime then (s1, notices @ [start_failed])
                else
                  (let s2 = s1\<lparr>mediaRecorderRef :=
                                  Some \<lparr>mimeType = mime, fileExtension = ext, stream = sid\<rparr>,
                                audioChunksRef := []\<rparr>
                   in if \<not> start_returns b then (s2, notices @ [start_failed])
                      else (s2\<lparr>isRecording := True\<rparr>,
                            notices @ [ShowToast ''Recording'' ''Audio recording started'' success]))))"

definition ondataavailable :: "bytes \<Rightarrow> recorder_state \<Rightarrow> recorder_state" where
  "ondataavailable data s =
     (if length data > 0 then s\<lparr>audioChunksRef := audioChunksRef s @ [data]\<rparr> else s)"

definition onstop :: "media_recorder \<Rightarrow> recorder_state \<Rightarrow> recorder_state" where
  "onstop r s =
     s\<lparr>audioBlob := Some \<lparr>blob_data = concat (audioChunksRef s), blob_type = mimeType r\<rparr>,
       audioFormat := fileExtension r,
       live_streams := removeAll (stream r) (live_streams s)\<rparr>"

definition stopRecording :: "bytes \<Rightarrow> recorder_state \<Rightarrow> recorder_state \<times> event list" where
  \<comment> \<open>\<open>pending\<close> is the data the recorder delivers on \<open>stop()\<close>, before the event \<open>stop\<close>\<close>
  "stopRecording pending s =
     (case mediaRecorderRef s of
        None \<Rightarrow> (s, [])
      | Some r \<Rightarrow>
          if isRecording s
          then ((onstop r (ondataavailable pending s))\<lparr>isRecording := False\<rparr>,
                [ShowToast ''Recording'' ''Audio recording stopped'' neutral])
          else (s, []))"

text \<open>
  A capture from \<open>startRecording\<close> to \<open>stopRecording\<close>: \<open>chunks\<close> are the data the
  recorder delivers while it records, \<open>pending\<close> what it delivers on \<open>stop()\<close>.
\<close>

definition captured :: "browser \<Rightarrow> bytes list \<Rightarrow> bytes \<Rightarrow> recorder_state \<Rightarrow> recorder_state" where
  "captured b chunks pending s =
     fst (stopRecording pending (fold ondataavailable chunks (fst (startRecording b s))))"

subsection \<open>\<open>processAudio\<close>\<close>

text \<open>
  \<open>window.electronAPI\<close>: the two operations \<open>processAudio\<close> calls. The preload script
  that binds them to the handlers is not part of the sources at hand; \<open>electronAPI\<close>
  binds each to the handler of its channel.
\<close>

record api =
  transcribeAudio :: "bytes \<Rightarrow> string \<Rightarrow> world \<Rightarrow> (exn + string) \<times> world"
  generateBehavioralAnswer :: "string \<Rightarrow> world \<Rightarrow> (exn + string) \<times> world"

definition electronAPI :: "host \<Rightarrow> api" where
  "electronAPI h =
     \<lparr>transcribeAudio = transcribe_audio h,
      generateBehavioralAnswer = generate_behavioral_answer h\<rparr>"

definition processing_notice :: event where
  "processing_notice =
     ShowToast ''Processing'' ''Transcribing audio and generating answer...'' neutral"

definition no_speech_notice :: event where
  "no_speech_notice = ShowToast ''Warning'' ''No speech detected in the recording'' error"

definition processed_notice :: event where
  "processed_notice = ShowToast ''Success'' ''Audio processed and answer generated!'' success"

definition process_failed :: event where
  "process_failed = ShowToast ''Error'' ''Failed to process audio. Please try again.'' error"

definition processAudio :: "api \<Rightarrow> recorder_state \<Rightarrow> world \<Rightarrow> recorder_state \<times> world \<times> event list" where
  "processAudio a s w =
     (case audioBlob s of
        None \<Rightarrow> (s, w, [])
      | Some b \<Rightarrow>
          (let filename = ''recording.'' @ audioFormat s;
               called = [processing_notice, TranscribeAudio (blob_data b) filename]
           in case transcribeAudio a (blob_data b) filename w of
                (Inl e, w1) \<Rightarrow> (s\<lparr>isProcessing := False\<rparr>, w1, called @ [process_failed])
              | (Inr transcribedText, w1) \<Rightarrow>
                  if trim transcribedText \<noteq> [] then
                    (case generateBehavioralAnswer a transcribedText w1 of
                       (Inl e, w2) \<Rightarrow>
                         (s\<lparr>isProcessing := False, transcription := transcribedText\<rparr>, w2,
                          called @ [GenerateBehavioralAnswer transcribedText, process_failed])
                     | (Inr generatedAnswer, w2) \<Rightarrow>
                         (s\<lparr>isProcessing := False, transcription := transcribedText,
                            answer := generatedAnswer\<rparr>, w2,
                          called @ [GenerateBehavioralAnswer transcribedText,
                                    OnTranscriptionComplete transcribedText generatedAnswer,
                                    processed_notice]))
                  else
                    (s\<lparr>isProcessing := False, transcription := transcribedText\<rparr>, w1,
                     called @ [no_speech_notice])))"

text \<open>
  The outcome of a run of \<open>processAudio\<close>, read from its effects: the run failed when
  the \<open>catch\<close> block ran (it alone shows \<open>process_failed\<close>), and completed when the
  \<open>try\<close> block ran to its end.
\<close>

datatype outcome = Ignored | Completed | Failed

definition outcome_of :: "event list \<Rightarrow> outcome" where
  "outcome_of es =
     (if es = [] then Ignored else if process_failed \<in> set es then Failed else Completed)"

section \<open>Concrete hosts\<close>

definition sample_webm :: bytes where
  "sample_webm = [0x1A, 0x45, 0xDF, 0xA3]"

definition sample_wav :: bytes where
  "sample_wav = [0x52, 0x49, 0x46, 0x46]"

definition sample_mp3 :: bytes where
  "sample_mp3 = [0x49, 0x44, 0x33]"

definition sample_world :: world where
  "sample_world = \<lparr>files = Map.empty, requests = [], conversions = []\<rparr>"

definition openrouter_host :: host where
  "openrouter_host =
     \<lparr>hasApiKey = True, apiKey = Some ''sk-or-v1-0a1b'', solutionModel = None,
      tmpdir = ''/tmp'', path_join = posix_join,
      now_input = ''1700000000000'', now_output = ''1700000000000'',
      now_upload = ''1700000000001'', write_fault = (\<lambda>p. None),
      ffmpeg = (\<lambda>webm. OnEnd (Some sample_wav)),
      chat_completions = (\<lambda>r. Inr [Choice (Some (Message (Some ''Tell me about a time you led a team.'')))]),
      audio_transcriptions = (\<lambda>r. Inr ''Tell me about a time you led a team.'')\<rparr>"

definition openai_host :: host where
  "openai_host = openrouter_host\<lparr>apiKey := Some ''sk-0a1b''\<rparr>"

definition unreadable_output_host :: host where
  \<comment> \<open>the transcoder reports \<open>end\<close> and no file is at the output path\<close>
  "unreadable_output_host = openrouter_host\<lparr>ffmpeg := (\<lambda>webm. OnEnd None)\<rparr>"

definition silent_host :: host where
  \<comment> \<open>the speech endpoint hears nothing\<close>
  "silent_host = openai_host\<lparr>audio_transcriptions := (\<lambda>r. Inr '' '')\<rparr>"

definition empty_reply_host :: host where
  "empty_reply_host = openrouter_host\<lparr>chat_completions := (\<lambda>r. Inr [Choice (Some (Message None))])\<rparr>"

definition webm_only_browser :: browser where
  \<comment> \<open>none of the preferred types is supported, and the recorder starts\<close>
  "webm_only_browser =
     \<lparr>getUserMedia_resolves = True, isTypeSupported = (\<lambda>t. False),
      constructor_accepts = (\<lambda>t. True), start_returns = True\<rparr>"

definition mp3_browser :: browser where
  \<comment> \<open>the first preferred type is supported\<close>
  "mp3_browser = webm_only_browser\<lparr>isTypeSupported := (\<lambda>t. t = ''audio/mp3'')\<rparr>"

definition rejecting_browser :: browser where
  \<comment> \<open>the microphone is granted, and the constructor of the recorder throws\<close>
  "rejecting_browser = webm_only_browser\<lparr>constructor_accepts := (\<lambda>t. False)\<rparr>"

definition stopped_state :: recorder_state where
  \<comment> \<open>after a recording in the fallback type has been stopped\<close>
  "stopped_state =
     initial_state\<lparr>audioBlob := Some \<lparr>blob_data = sample_webm, blob_type = ''audio/webm;codecs=opus''\<rparr>,
                   audioFormat := ''webm''\<rparr>"

section \<open>Specification-side definitions\<close>

definition preference_order :: "(string \<times> string) list" where
  "preference_order =
     [(''audio/mp3'', ''mp3''), (''audio/wav'', ''wav''), (''audio/wave'', ''wav''),
      (''audio/x-wav'', ''wav'')]"


definition new_requests :: "world \<Rightarrow> world \<Rightarrow> request list" where
  \<comment> \<open>the requests sent between two states of the world\<close>
  "new_requests w w' = drop (length (requests w)) (requests w')"

definition audio_tags :: "request \<Rightarrow> string list" where
  \<comment> \<open>the format tags of the audio parts of a request\<close>
  "audio_tags r =
     (case r of
        ChatCompletions c \<Rightarrow>
          concat (map (\<lambda>m. case content m of
                              Plain t \<Rightarrow> []
                            | Parts ps \<Rightarrow> concat (map (\<lambda>p. case p of TextPart t \<Rightarrow> []
                                                                 | InputAudio d f \<Rightarrow> [f]) ps))
                      (messages c))
      | AudioTranscriptions t \<Rightarrow> [])"

definition audio_parts :: "request \<Rightarrow> (bytes \<times> string) list" where
  \<comment> \<open>the audio parts of a request: the bytes under the base64 encoding, and the format tag\<close>
  "audio_parts r =
     (case r of
        ChatCompletions c \<Rightarrow>
          concat (map (\<lambda>m. case content m of
                              Plain t \<Rightarrow> []
                            | Parts ps \<Rightarrow> concat (map (\<lambda>p. case p of TextPart t \<Rightarrow> []
                                                                 | InputAudio (Base64 d) f \<Rightarrow> [(d, f)]) ps))
                      (messages c))
      | AudioTranscriptions t \<Rightarrow> [])"

definition uploaded_files :: "request \<Rightarrow> (string \<times> bytes) list" where
  \<comment> \<open>the file a request uploads: its path and its bytes\<close>
  "uploaded_files r =
     (case r of
        ChatCompletions c \<Rightarrow> []
      | AudioTranscriptions t \<Rightarrow> [(file_path t, file_data t)])"

definition sent_audio :: "world \<Rightarrow> world \<Rightarrow> (bytes \<times> string) list" where
  \<comment> \<open>all audio parts sent between two states of the world\<close>
  "sent_audio w w' = concat (map audio_parts (new_requests w w'))"

definition sent_files :: "world \<Rightarrow> world \<Rightarrow> (string \<times> bytes) list" where
  \<comment> \<open>all files uploaded between two states of the world\<close>
  "sent_files w w' = concat (map uploaded_files (new_requests w w'))"

definition multimodal_audio_chat :: "request \<Rightarrow> bool" where
  \<comment> \<open>provider A: one chat message with a text part and a base64 audio part with a tag \<open>wav\<close> or \<open>mp3\<close>\<close>
  "multimodal_audio_chat r =
     (case r of
        ChatCompletions c \<Rightarrow>
          baseURL c = Some ''https://openrouter.ai/api/v1'' \<and>
          (case messages c of
             [m] \<Rightarrow> (case content m of
                       Parts [TextPart t, InputAudio (Base64 d) f] \<Rightarrow> f = ''wav'' \<or> f = ''mp3''
                     | _ \<Rightarrow> False)
           | _ \<Rightarrow> False)
      | AudioTranscriptions t \<Rightarrow> False)"

definition speech_upload_en :: "request \<Rightarrow> bool" where
  \<comment> \<open>provider B: a file upload to the speech endpoint with the language \<open>en\<close>\<close>
  "speech_upload_en r =
     (case r of
        ChatCompletions c \<Rightarrow> False
      | AudioTranscriptions t \<Rightarrow> language t = ''en'')"

definition asks_nonempty :: "event \<Rightarrow> bool" where
  "asks_nonempty e =
     (case e of GenerateBehavioralAnswer q \<Rightarrow> trim q \<noteq> [] | _ \<Rightarrow> True)"

section \<open>Evaluation of the filename tests\<close>

lemma isWebM_recording_webm: "isWebM ''recording.webm''"
  by (simp add: isWebM_def toLowerCase_def toLowerCase_char_def case_table_def startsWith_def)

lemma not_isWebM_recording_mp3: "\<not> isWebM ''recording.mp3''"
  by (simp add: isWebM_def toLowerCase_def toLowerCase_char_def case_table_def startsWith_def)

lemma not_isWebM_recording_wav: "\<not> isWebM ''recording.wav''"
  by (simp add: isWebM_def toLowerCase_def toLowerCase_char_def case_table_def startsWith_def)

lemma isMp3_recording_mp3: "isMp3 ''recording.mp3''"
  by (simp add: isMp3_def toLowerCase_def toLowerCase_char_def case_table_def endsWith_def)

lemma posix_join_input:
  "posix_join ''/tmp'' ''input_1700000000000.webm'' = ''/tmp/input_1700000000000.webm''"
  by (simp add: posix_join_def posix_normalize_def)

lemma posix_join_output:
  "posix_join ''/tmp'' ''output_1700000000000.wav'' = ''/tmp/output_1700000000000.wav''"
  by (simp add: posix_join_def posix_normalize_def)

lemma posix_join_upload_webm:
  "posix_join ''/tmp'' ''temp_audio_1700000000001_recording.webm'' =
     ''/tmp/temp_audio_1700000000001_recording.webm''"
  by (simp add: posix_join_def posix_normalize_def)

lemma posix_join_upload_mp3:
  "posix_join ''/tmp'' ''temp_audio_1700000000001_recording.mp3'' =
     ''/tmp/temp_audio_1700000000001_recording.mp3''"
  by (simp add: posix_join_def posix_normalize_def)

section \<open>What the handlers do to the world\<close>

lemma run_ffmpeg_requests:
  "requests (snd (run_ffmpeg h i out w)) = requests w"
  by (simp add: run_ffmpeg_def split: option.splits ffmpeg_result.splits)

lemma run_ffmpeg_conversions:
  "conversions (snd (run_ffmpeg h i out w)) = conversions w"
  by (simp add: run_ffmpeg_def split: option.splits ffmpeg_result.splits)

lemma convertWebMToWAV_requests:
  "requests (snd (convertWebMToWAV h b w)) = requests w"
proof -
  have "\<And>w1 x w2. run_ffmpeg h (inputPath_of h) (outputPath_of h) w1 = (x, w2) \<Longrightarrow>
          requests w2 = requests w1"
    using run_ffmpeg_requests by (metis snd_conv)
  then show ?thesis
    by (auto simp: convertWebMToWAV_def Let_def writeFileSync_def readFileSync_def
          try_unlinkSync_def split: option.splits sum.splits prod.splits)
qed

lemma convertWebMToWAV_conversions:
  "conversions (snd (convertWebMToWAV h b w)) = conversions w @ [b]"
proof -
  have "\<And>w1 x w2. run_ffmpeg h (inputPath_of h) (outputPath_of h) w1 = (x, w2) \<Longrightarrow>
          conversions w2 = conversions w1"
    using run_ffmpeg_conversions by (metis snd_conv)
  then show ?thesis
    by (auto simp: convertWebMToWAV_def Let_def writeFileSync_def readFileSync_def
          try_unlinkSync_def split: option.splits sum.splits prod.splits)
qed

text \<open>
  The temporary files after \<open>convertWebMToWAV\<close>. The output file is always gone. The
  input file is gone on every path but one: the transcoder reported \<open>end\<close> and the
  output file could not be read.
\<close>

lemma convertWebMToWAV_output_file:
  "files (snd (convertWebMToWAV h b w)) (outputPath_of h) = None"
  by (auto simp: convertWebMToWAV_def Let_def writeFileSync_def run_ffmpeg_def readFileSync_def
        try_unlinkSync_def split: option.splits ffmpeg_result.splits)

lemma convertWebMToWAV_input_file:
  "inputPath_of h \<noteq> outputPath_of h \<Longrightarrow>
   files (snd (convertWebMToWAV h b w)) (inputPath_of h) =
     (if write_fault h (inputPath_of h) = None \<and> ffmpeg h b = OnEnd None \<and>
         files w (outputPath_of h) = None
      then Some b else None)"
  by (auto simp: convertWebMToWAV_def Let_def writeFileSync_def run_ffmpeg_def readFileSync_def
        try_unlinkSync_def split: option.splits ffmpeg_result.splits)

lemma submit_audio_requests:
  "requests (snd (submit_audio h k b f w)) =
     requests w @ [ChatCompletions (openrouter_audio_request k b f)]"
  by (simp add: submit_audio_def send_chat_def split: sum.splits)

lemma submit_audio_conversions:
  "conversions (snd (submit_audio h k b f w)) = conversions w"
  by (simp add: submit_audio_def send_chat_def split: sum.splits)

lemma transcribe_openrouter_requests:
  "requests (snd (transcribe_openrouter h k b filename w)) =
     requests w @
     (if isWebM filename
      then (case fst (convertWebMToWAV h b w) of
              Inl e \<Rightarrow> []
            | Inr wav \<Rightarrow> [ChatCompletions (openrouter_audio_request k wav ''wav'')])
      else [ChatCompletions (openrouter_audio_request k b (audioFormat_of filename))])"
proof (cases "convertWebMToWAV h b w")
  case (Pair r w1)
  then have "requests w1 = requests w"
    using convertWebMToWAV_requests [of h b w] by simp
  with Pair show ?thesis
    by (simp add: transcribe_openrouter_def submit_audio_requests split: sum.splits)
qed

lemma transcribe_openrouter_conversions:
  "conversions (snd (transcribe_openrouter h k b filename w)) =
     conversions w @ (if isWebM filename then [b] else [])"
proof (cases "convertWebMToWAV h b w")
  case (Pair r w1)
  then have "conversions w1 = conversions w @ [b]"
    using convertWebMToWAV_conversions [of h b w] by simp
  with Pair show ?thesis
    by (simp add: transcribe_openrouter_def submit_audio_conversions split: sum.splits)
qed

lemma transcribe_whisper_requests:
  "requests (snd (transcribe_whisper h k b filename w)) =
     requests w @
     (case write_fault h (tempFilePath_of h filename) of
        Some m \<Rightarrow> []
      | None \<Rightarrow> [AudioTranscriptions (whisper_request k (tempFilePath_of h filename) b)])"
  by (simp add: transcribe_whisper_def Let_def writeFileSync_def readFileSync_def
        try_unlinkSync_def split: option.splits)

lemma transcribe_whisper_conversions:
  "conversions (snd (transcribe_whisper h k b filename w)) = conversions w"
  by (simp add: transcribe_whisper_def Let_def writeFileSync_def readFileSync_def
        try_unlinkSync_def split: option.splits)

text \<open>
  The upload's temporary file is gone after the call, whatever the speech endpoint
  answered, once it was written.
\<close>

lemma transcribe_whisper_unlinks:
  "files (snd (transcribe_whisper h k b filename w)) (tempFilePath_of h filename) =
     (case write_fault h (tempFilePath_of h filename) of
        Some m \<Rightarrow> files w (tempFilePath_of h filename)
      | None \<Rightarrow> None)"
  by (simp add: transcribe_whisper_def Let_def writeFileSync_def readFileSync_def
        try_unlinkSync_def split: option.splits)

lemma transcribe_audio_configured:
  "hasApiKey h \<Longrightarrow> apiKey h = Some k \<Longrightarrow> k \<noteq> [] \<Longrightarrow>
   transcribe_audio h b filename w =
     (if startsWith k ''sk-or-'' then transcribe_openrouter h k b filename w
      else transcribe_whisper h k b filename w)"
  by (simp add: transcribe_audio_def)

lemma generate_configured:
  "hasApiKey h \<Longrightarrow> apiKey h = Some k \<Longrightarrow> k \<noteq> [] \<Longrightarrow>
   generate_behavioral_answer h question w =
     (case chat_completions h (generation_request h k question) of
        Inl e \<Rightarrow> Inl e
      | Inr c \<Rightarrow> Inr (or_else (first_content c) fallback_answer),
      w\<lparr>requests := requests w @ [ChatCompletions (generation_request h k question)]\<rparr>)"
  by (simp add: generate_behavioral_answer_def send_chat_def split: sum.splits)

lemma new_requests_append: "requests w' = requests w @ rs \<Longrightarrow> new_requests w w' = rs"
  by (simp add: new_requests_def)

section \<open>What the recorder does\<close>

lemma processAudio_asks_nonempty:
  "list_all asks_nonempty (snd (snd (processAudio a s w)))"
  by (simp add: processAudio_def Let_def asks_nonempty_def processing_notice_def
        process_failed_def no_speech_notice_def processed_notice_def
        split: option.splits prod.splits sum.splits)

lemma stopRecording_releases_stream:
  "mediaRecorderRef s = Some r \<Longrightarrow> isRecording s \<Longrightarrow>
   stream r \<notin> set (live_streams (fst (stopRecording pending s)))"
  by (simp add: stopRecording_def onstop_def ondataavailable_def)

lemma startRecording_then_stopRecording:
  "getUserMedia_resolves b \<Longrightarrow>
   constructor_accepts b (fst (select_mimeType (isTypeSupported b))) \<Longrightarrow> start_returns b \<Longrightarrow>
   next_stream s \<notin> set (live_streams s) \<Longrightarrow>
   live_streams (fst (stopRecording pending (fst (startRecording b s)))) = live_streams s"
  by (auto simp: startRecording_def stopRecording_def onstop_def ondataavailable_def Let_def
        split: prod.splits)

section \<open>What is sent, and what a capture holds\<close>

lemma audio_parts_openrouter [simp]:
  "audio_parts (ChatCompletions (openrouter_audio_request k b f)) = [(b, f)]"
  by (simp add: audio_parts_def openrouter_audio_request_def)

lemma audio_parts_whisper [simp]:
  "audio_parts (AudioTranscriptions t) = []"
  by (simp add: audio_parts_def)

lemma audio_parts_generation [simp]:
  "audio_parts (ChatCompletions (generation_request h k q)) = []"
  by (simp add: audio_parts_def generation_request_def)

lemma uploaded_files_whisper [simp]:
  "uploaded_files (AudioTranscriptions (whisper_request k p d)) = [(p, d)]"
  by (simp add: uploaded_files_def whisper_request_def)

lemma uploaded_files_chat [simp]:
  "uploaded_files (ChatCompletions c) = []"
  by (simp add: uploaded_files_def)


lemma not_isMp3_recording_wav: "\<not> isMp3 ''recording.wav''"
  by (simp add: isMp3_def toLowerCase_def toLowerCase_char_def case_table_def endsWith_def)

lemma fold_ondataavailable:
  "fold ondataavailable chunks s =
     s\<lparr>audioChunksRef := audioChunksRef s @ filter (\<lambda>c. c \<noteq> []) chunks\<rparr>"
  by (induction chunks arbitrary: s) (simp_all add: ondataavailable_def)

lemma concat_filter_nonempty: "concat (filter (\<lambda>c. c \<noteq> []) cs) = concat cs"
  by (induction cs) simp_all

lemma select_mimeType_supported:
  "list_ex supported (map fst preference_order) \<Longrightarrow>
   fst (snd (select_mimeType supported)) = ''mp3'' \<or> fst (snd (select_mimeType supported)) = ''wav''"
  by (auto simp: select_mimeType_def preference_order_def)

lemma startRecording_started:
  "getUserMedia_resolves b \<Longrightarrow> start_returns b \<Longrightarrow>
   constructor_accepts b (fst (select_mimeType (isTypeSupported b))) \<Longrightarrow>
   fst (startRecording b s) =
     s\<lparr>live_streams := live_streams s @ [next_stream s], next_stream := Suc (next_stream s),
       mediaRecorderRef :=
         Some \<lparr>mimeType = fst (select_mimeType (isTypeSupported b)),
               fileExtension = fst (snd (select_mimeType (isTypeSupported b))),
               stream = next_stream s\<rparr>,
       audioChunksRef := [], isRecording := True\<rparr>"
  by (auto simp: startRecording_def Let_def split: prod.splits)

lemma recording_captured:
  assumes "getUserMedia_resolves b" and "start_returns b"
    and "constructor_accepts b (fst (select_mimeType (isTypeSupported b)))"
  shows "audioBlob (fst (stopRecording pending (fold ondataavailable chunks (fst (startRecording b s))))) =
           Some \<lparr>blob_data = concat (chunks @ [pending]),
                 blob_type = fst (select_mimeType (isTypeSupported b))\<rparr>"
    and "audioFormat (fst (stopRecording pending (fold ondataavailable chunks (fst (startRecording b s))))) =
           fst (snd (select_mimeType (isTypeSupported b)))"
  using assms
  by (simp_all add: startRecording_started fold_ondataavailable stopRecording_def onstop_def
        ondataavailable_def concat_filter_nonempty)

lemma transcribe_audio_requests_extend:
  "\<exists>rs. requests (snd (transcribe_audio h b f w)) = requests w @ rs"
  by (simp add: transcribe_audio_def transcribe_openrouter_requests transcribe_whisper_requests
        split: option.splits)

lemma generate_behavioral_answer_sends_no_audio:
  "\<exists>rs. requests (snd (generate_behavioral_answer h q w)) = requests w @ rs \<and>
        concat (map audio_parts rs) = [] \<and> concat (map uploaded_files rs) = []"
  by (simp add: generate_behavioral_answer_def send_chat_def split: option.splits sum.splits)

lemma generate_behavioral_answer_conversions:
  "conversions (snd (generate_behavioral_answer h q w)) = conversions w"
  by (simp add: generate_behavioral_answer_def send_chat_def split: option.splits sum.splits)

lemma processAudio_world:
  assumes "audioBlob s = Some b"
  shows "fst (snd (processAudio (electronAPI h) s w)) =
           (case transcribe_audio h (blob_data b) (''recording.'' @ audioFormat s) w of
              (Inl e, w1) \<Rightarrow> w1
            | (Inr t, w1) \<Rightarrow>
                if trim t \<noteq> [] then snd (generate_behavioral_answer h t w1) else w1)"
  using assms
  by (simp add: processAudio_def electronAPI_def Let_def split: prod.splits sum.splits)

lemma processAudio_electronAPI:
  assumes "audioBlob s = Some b"
  shows "sent_audio w (fst (snd (processAudio (electronAPI h) s w))) =
           sent_audio w (snd (transcribe_audio h (blob_data b) (''recording.'' @ audioFormat s) w))"
    and "sent_files w (fst (snd (processAudio (electronAPI h) s w))) =
           sent_files w (snd (transcribe_audio h (blob_data b) (''recording.'' @ audioFormat s) w))"
    and "conversions (fst (snd (processAudio (electronAPI h) s w))) =
           conversions (snd (transcribe_audio h (blob_data b) (''recording.'' @ audioFormat s) w))"
proof -
  let ?w1 = "snd (transcribe_audio h (blob_data b) (''recording.'' @ audioFormat s) w)"
  let ?w2 = "fst (snd (processAudio (electronAPI h) s w))"
  obtain rs where rs: "requests ?w1 = requests w @ rs"
    using transcribe_audio_requests_extend by blast
  have gen: "sent_audio w (snd (generate_behavioral_answer h t ?w1)) = sent_audio w ?w1 \<and>
             sent_files w (snd (generate_behavioral_answer h t ?w1)) = sent_files w ?w1 \<and>
             conversions (snd (generate_behavioral_answer h t ?w1)) = conversions ?w1" for t
  proof -
    obtain gs where gs: "requests (snd (generate_behavioral_answer h t ?w1)) = requests ?w1 @ gs"
      "concat (map audio_parts gs) = []" "concat (map uploaded_files gs) = []"
      using generate_behavioral_answer_sends_no_audio by blast
    show ?thesis
      using gs rs
      by (simp add: sent_audio_def sent_files_def new_requests_def
            generate_behavioral_answer_conversions)
  qed
  have "?w2 = ?w1 \<or> (\<exists>t. ?w2 = snd (generate_behavioral_answer h t ?w1))"
    unfolding processAudio_world [OF assms, of h w]
    by (cases "transcribe_audio h (blob_data b) (''recording.'' @ audioFormat s) w")
       (auto split: sum.splits)
  then show "sent_audio w ?w2 = sent_audio w ?w1"
    and "sent_files w ?w2 = sent_files w ?w1"
    and "conversions ?w2 = conversions ?w1"
    using gen by auto
qed

lemma select_mimeType_mp3_browser:
  "select_mimeType (isTypeSupported mp3_browser) = (''audio/mp3'', ''mp3'', [])"
  by (simp add: select_mimeType_def mp3_browser_def webm_only_browser_def)

section \<open>Runs on the concrete hosts\<close>

lemma openai_host_evaluated:
  "transcribe_audio openai_host sample_webm ''recording.webm'' sample_world =
     (Inr ''Tell me about a time you led a team.'',
      sample_world\<lparr>requests :=
        [AudioTranscriptions
           \<lparr>upload_apiKey = ''sk-0a1b'',
            file_path = ''/tmp/temp_audio_1700000000001_recording.webm'',
            file_data = sample_webm, upload_model = ''whisper-1'', language = ''en''\<rparr>]\<rparr>)"
  by (simp add: transcribe_audio_def openai_host_def openrouter_host_def startsWith_def
        transcribe_whisper_def tempFilePath_of_def posix_join_upload_webm writeFileSync_def
        readFileSync_def try_unlinkSync_def whisper_request_def sample_world_def Let_def)

lemma silent_host_evaluated:
  "transcribe_audio silent_host sample_webm ''recording.webm'' sample_world =
     (Inr '' '',
      sample_world\<lparr>requests :=
        [AudioTranscriptions
           (whisper_request ''sk-0a1b'' ''/tmp/temp_audio_1700000000001_recording.webm''
              sample_webm)]\<rparr>)"
  by (simp add: transcribe_audio_def silent_host_def openai_host_def openrouter_host_def
        startsWith_def transcribe_whisper_def tempFilePath_of_def posix_join_upload_webm
        writeFileSync_def readFileSync_def try_unlinkSync_def sample_world_def Let_def)

lemma openrouter_convert_evaluated:
  "fst (convertWebMToWAV openrouter_host sample_webm sample_world) = Inr sample_wav"
  by (simp add: convertWebMToWAV_def openrouter_host_def sample_world_def
        inputPath_of_def outputPath_of_def posix_join_input posix_join_output writeFileSync_def run_ffmpeg_def
        readFileSync_def Let_def)

section \<open>Temporary files (C1)\<close>

text \<open>
  Claim C1: every temporary file a call of the transcoding operation or of the
  provider-B transcription path creates is deleted before the call returns, on every
  exit path, the failure to read the converted output included.

  The code does so on every path but that one (\<open>convertWebMToWAV_input_file\<close>,
  \<open>convertWebMToWAV_output_file\<close>, \<open>transcribe_whisper_unlinks\<close>). The \<open>catch\<close>
  around \<open>fs.readFileSync(outputPath)\<close> rejects without unlinking: when the transcoder
  reports \<open>end\<close> and no file can be read at the output path, the call returns the
  read error and the input file, holding the recording, is still on disk. The same
  holds for the handler \<open>transcribe-audio\<close> that made the call.
\<close>

theorem convertWebMToWAV_read_failure_keeps_input:
  "fst (convertWebMToWAV unreadable_output_host sample_webm sample_world) =
     Inl (Error (''Failed to read converted WAV file: ENOENT: no such file or directory, open '' @
                 apostrophe @ ''/tmp/output_1700000000000.wav'' @ apostrophe)) \<and>
   files (snd (convertWebMToWAV unreadable_output_host sample_webm sample_world))
     ''/tmp/input_1700000000000.webm'' = Some sample_webm \<and>
   files (snd (transcribe_audio unreadable_output_host sample_webm ''recording.webm'' sample_world))
     ''/tmp/input_1700000000000.webm'' = Some sample_webm"
  by (simp add: convertWebMToWAV_def unreadable_output_host_def openrouter_host_def sample_world_def
        inputPath_of_def outputPath_of_def posix_join_input posix_join_output writeFileSync_def run_ffmpeg_def
        readFileSync_def Let_def transcribe_audio_def transcribe_openrouter_def startsWith_def
        isWebM_recording_webm)

section \<open>The empty question (C2)\<close>

text \<open>
  Against claim C2 as stated: the handler \<open>generate-behavioral-answer\<close> has no test of
  the question. Given the empty question and a configured key it sends the chat request
  and returns the provider's answer.
\<close>

theorem generate_behavioral_answer_empty_question_counterexample:
  "trim [] = [] \<and>
   generate_behavioral_answer openrouter_host [] sample_world =
     (Inr ''Tell me about a time you led a team.'',
      sample_world\<lparr>requests :=
        [ChatCompletions (generation_request openrouter_host ''sk-or-v1-0a1b'' [])]\<rparr>)"
  by (simp add: trim_def generate_behavioral_answer_def openrouter_host_def send_chat_def
        sample_world_def first_content_def or_else_def)

text \<open>
  Claim C2, amended: the emptiness test is \<open>processAudio\<close>'s, not the handler's. With a
  key configured the handler sends exactly one chat request for every question, the
  empty one included, and has no failure of its own for it; \<open>processAudio\<close> calls the
  answer generation only with a question whose trimmed value is not empty, so for an
  empty one no request is sent.
\<close>

theorem empty_question_guarded_by_processAudio:
  assumes "hasApiKey h" and "apiKey h = Some k" and "k \<noteq> []"
  shows "requests (snd (generate_behavioral_answer h question w)) =
           requests w @ [ChatCompletions (generation_request h k question)] \<and>
         list_all asks_nonempty (snd (snd (processAudio a s w1)))"
  using assms by (simp add: generate_configured processAudio_asks_nonempty)

text \<open>The theorem at the empty question, and at a run whose transcript is blank.\<close>

theorem empty_question_guarded_by_processAudio_witness:
  "hasApiKey openrouter_host \<and> apiKey openrouter_host = Some ''sk-or-v1-0a1b'' \<and>
   ''sk-or-v1-0a1b'' \<noteq> [] \<and>
   requests (snd (generate_behavioral_answer openrouter_host [] sample_world)) =
     [ChatCompletions (generation_request openrouter_host ''sk-or-v1-0a1b'' [])] \<and>
   list_all asks_nonempty
     (snd (snd (processAudio (electronAPI silent_host) stopped_state sample_world)))"
proof -
  have k: "hasApiKey openrouter_host" "apiKey openrouter_host = Some ''sk-or-v1-0a1b''"
    "''sk-or-v1-0a1b'' \<noteq> []"
    by (simp_all add: openrouter_host_def)
  show ?thesis
    using k empty_question_guarded_by_processAudio [OF k, where question = "[]"
        and w = sample_world and a = "electronAPI silent_host" and s = stopped_state
        and ?w1.0 = sample_world]
    by (simp add: sample_world_def)
qed

section \<open>What a WebM recording is sent as (C3)\<close>




section \<open>The microphone (C4)\<close>

text \<open>
  Claim C4: the microphone's stream is released on every exit path of the capture
  stage, the failure of the capture setup after the device was acquired included, and
  when capture stops.

  The code releases the stream in the recorder's \<open>onstop\<close> only
  (\<open>stopRecording_releases_stream\<close>, \<open>startRecording_then_stopRecording\<close>). The
  \<open>catch\<close> of \<open>startRecording\<close> shows a toast and stops no track: when \<open>getUserMedia\<close>
  has resolved and the constructor of the recorder throws, the stream stays live,
  \<open>isRecording\<close> stays false, and \<open>stopRecording\<close> then does nothing.
\<close>

theorem startRecording_leaks_stream_on_setup_failure:
  "startRecording rejecting_browser initial_state =
     (initial_state\<lparr>live_streams := [0], next_stream := 1\<rparr>, [webm_notice, start_failed]) \<and>
   stopRecording pending (fst (startRecording rejecting_browser initial_state)) =
     (initial_state\<lparr>live_streams := [0], next_stream := 1\<rparr>, [])"
  by (simp add: startRecording_def rejecting_browser_def webm_only_browser_def initial_state_def
        select_mimeType_def stopRecording_def Let_def)

section \<open>The empty transcript (C5)\<close>

text \<open>
  Claim C5: when the transcription returns an empty or whitespace-only transcript,
  the run completes with a warning notice, the answer generation is never invoked and
  the run is not a failed one.

  In the code: \<open>processAudio\<close> stores the transcript, shows the toast titled
  \<open>Warning\<close> (with the variant \<open>error\<close>), calls neither \<open>generateBehavioralAnswer\<close> nor
  \<open>onTranscriptionComplete\<close>, does not enter its \<open>catch\<close> block, and leaves the world
  as the transcription left it.
\<close>

theorem empty_transcript_completes_with_warning:
  assumes "audioBlob s = Some b"
    and "transcribeAudio a (blob_data b) (''recording.'' @ audioFormat s) w = (Inr t, w1)"
    and "trim t = []"
  shows "processAudio a s w =
           (s\<lparr>isProcessing := False, transcription := t\<rparr>, w1,
            [processing_notice, TranscribeAudio (blob_data b) (''recording.'' @ audioFormat s),
             no_speech_notice]) \<and>
         no_speech_notice = ShowToast ''Warning'' ''No speech detected in the recording'' error \<and>
         outcome_of (snd (snd (processAudio a s w))) = Completed"
  using assms
  by (simp add: processAudio_def Let_def outcome_of_def processing_notice_def
        no_speech_notice_def process_failed_def)

text \<open>The theorem on a stopped WebM recording, with a speech endpoint that hears a blank.\<close>

theorem empty_transcript_completes_with_warning_witness:
  "audioBlob stopped_state =
     Some \<lparr>blob_data = sample_webm, blob_type = ''audio/webm;codecs=opus''\<rparr> \<and>
   trim '' '' = [] \<and>
   processAudio (electronAPI silent_host) stopped_state sample_world =
     (stopped_state\<lparr>isProcessing := False, transcription := '' ''\<rparr>,
      sample_world\<lparr>requests :=
        [AudioTranscriptions
           (whisper_request ''sk-0a1b'' ''/tmp/temp_audio_1700000000001_recording.webm''
              sample_webm)]\<rparr>,
      [processing_notice, TranscribeAudio sample_webm ''recording.webm'', no_speech_notice]) \<and>
   outcome_of (snd (snd (processAudio (electronAPI silent_host) stopped_state sample_world))) =
     Completed"
proof -
  have b: "audioBlob stopped_state =
     Some \<lparr>blob_data = sample_webm, blob_type = ''audio/webm;codecs=opus''\<rparr>"
    by (simp add: stopped_state_def initial_state_def)
  have f: "audioFormat stopped_state = ''webm''"
    by (simp add: stopped_state_def)
  have r: "transcribeAudio (electronAPI silent_host)
             (blob_data \<lparr>blob_data = sample_webm, blob_type = ''audio/webm;codecs=opus''\<rparr>)
             (''recording.'' @ audioFormat stopped_state) sample_world =
           (Inr '' '', sample_world\<lparr>requests :=
             [AudioTranscriptions
                (whisper_request ''sk-0a1b'' ''/tmp/temp_audio_1700000000001_recording.webm''
                   sample_webm)]\<rparr>)"
    by (simp add: electronAPI_def f silent_host_evaluated)
  have t: "trim '' '' = []"
    by (simp add: trim_def is_js_space_def)
  show ?thesis
    using b t empty_transcript_completes_with_warning [OF b r t]
    by (auto simp: f)
qed

section \<open>The protocol follows the key (C6)\<close>

text \<open>
  Claim C6: the transcription selects one of two mutually exclusive protocols by the
  shape of the credential alone. With a credential configured: if the key starts with
  \<open>sk-or-\<close>, whatever the call sends is the provider-A multimodal chat request with
  base64 audio and a format tag, and it sends exactly one unless the transcoding of a
  WebM recording failed; otherwise whatever it sends is the provider-B upload with the
  language \<open>en\<close>, and it sends exactly one unless the temporary file could not be
  written.
\<close>

theorem protocol_selected_by_key_prefix:
  assumes "hasApiKey h" and "apiKey h = Some k" and "k \<noteq> []"
  shows "(if startsWith k ''sk-or-''
          then list_all multimodal_audio_chat
                 (new_requests w (snd (transcribe_audio h audioBuffer filename w))) \<and>
               length (new_requests w (snd (transcribe_audio h audioBuffer filename w))) =
                 (if isWebM filename \<and> isl (fst (convertWebMToWAV h audioBuffer w)) then 0 else 1)
          else list_all speech_upload_en
                 (new_requests w (snd (transcribe_audio h audioBuffer filename w))) \<and>
               length (new_requests w (snd (transcribe_audio h audioBuffer filename w))) =
                 (if write_fault h (tempFilePath_of h filename) = None then 1 else 0))"
  using assms
  by (auto simp: transcribe_audio_configured new_requests_append
        transcribe_openrouter_requests transcribe_whisper_requests
        multimodal_audio_chat_def speech_upload_en_def openrouter_audio_request_def
        whisper_request_def audioFormat_of_def
        split: sum.splits option.splits)

text \<open>The theorem at a key of provider B and at a key of provider A.\<close>

theorem protocol_selected_by_key_prefix_witness:
  "hasApiKey openai_host \<and> apiKey openai_host = Some ''sk-0a1b'' \<and> ''sk-0a1b'' \<noteq> [] \<and>
   \<not> startsWith ''sk-0a1b'' ''sk-or-'' \<and>
   list_all speech_upload_en
     (new_requests sample_world
        (snd (transcribe_audio openai_host sample_webm ''recording.webm'' sample_world))) \<and>
   length (new_requests sample_world
        (snd (transcribe_audio openai_host sample_webm ''recording.webm'' sample_world))) = 1 \<and>
   hasApiKey openrouter_host \<and> apiKey openrouter_host = Some ''sk-or-v1-0a1b'' \<and>
   startsWith ''sk-or-v1-0a1b'' ''sk-or-'' \<and>
   list_all multimodal_audio_chat
     (new_requests sample_world
        (snd (transcribe_audio openrouter_host sample_webm ''recording.webm'' sample_world))) \<and>
   length (new_requests sample_world
        (snd (transcribe_audio openrouter_host sample_webm ''recording.webm'' sample_world))) = 1"
proof -
  have k: "hasApiKey openai_host" "apiKey openai_host = Some ''sk-0a1b''" "''sk-0a1b'' \<noteq> []"
    by (simp_all add: openai_host_def openrouter_host_def)
  have k': "hasApiKey openrouter_host" "apiKey openrouter_host = Some ''sk-or-v1-0a1b''"
    "''sk-or-v1-0a1b'' \<noteq> []"
    by (simp_all add: openrouter_host_def)
  have B: "list_all speech_upload_en
     (new_requests sample_world
        (snd (transcribe_audio openai_host sample_webm ''recording.webm'' sample_world))) \<and>
   length (new_requests sample_world
        (snd (transcribe_audio openai_host sample_webm ''recording.webm'' sample_world))) = 1"
    using protocol_selected_by_key_prefix [OF k, where w = sample_world
        and audioBuffer = sample_webm and filename = "''recording.webm''"]
    by (simp add: startsWith_def openai_host_def openrouter_host_def)
  have A: "list_all multimodal_audio_chat
     (new_requests sample_world
        (snd (transcribe_audio openrouter_host sample_webm ''recording.webm'' sample_world))) \<and>
   length (new_requests sample_world
        (snd (transcribe_audio openrouter_host sample_webm ''recording.webm'' sample_world))) = 1"
    using protocol_selected_by_key_prefix [OF k', where w = sample_world
        and audioBuffer = sample_webm and filename = "''recording.webm''"]
    by (simp add: startsWith_def openrouter_convert_evaluated)
  show ?thesis
    using k k' A B by (simp add: startsWith_def)
qed

section \<open>WAV and MP3 recordings go out as captured (C7)\<close>

text \<open>
  Claim C7: for a recording already encoded as WAV or MP3 the normalisation is a
  no-op: the bytes submitted to the transcription provider are the captured ones, and
  no transcoding is invoked.

  With a credential configured, for the handler: given a filename that does not
  contain \<open>webm\<close>, no conversion is made; on the provider-A path the one audio part
  sent holds the bytes of the buffer (under base64) and the tag of the filename, and no
  file is uploaded; on the provider-B path no audio part is sent and the file uploaded
  holds the bytes of the buffer. For the whole pipeline: when the browser supports one
  of the preferred types and the capture runs from \<open>startRecording\<close> to
  \<open>stopRecording\<close>, the blob is the concatenation of the delivered data, its format
  is \<open>mp3\<close> or \<open>wav\<close>, and \<open>processAudio\<close> through the handlers makes no conversion
  and sends exactly these bytes: as the audio part tagged with that format on the
  provider-A path, as the uploaded file on the provider-B path.
\<close>

theorem wav_and_mp3_submitted_unconverted:
  assumes "hasApiKey h" and "apiKey h = Some k" and "k \<noteq> []" and "\<not> isWebM filename"
    and "getUserMedia_resolves b" and "start_returns b"
    and "constructor_accepts b (fst (select_mimeType (isTypeSupported b)))"
    and "list_ex (isTypeSupported b) (map fst preference_order)"
  shows "conversions (snd (transcribe_audio h audioBuffer filename w)) = conversions w \<and>
         (if startsWith k ''sk-or-''
          then sent_audio w (snd (transcribe_audio h audioBuffer filename w)) =
                 [(audioBuffer, audioFormat_of filename)] \<and>
               sent_files w (snd (transcribe_audio h audioBuffer filename w)) = []
          else sent_audio w (snd (transcribe_audio h audioBuffer filename w)) = [] \<and>
               sent_files w (snd (transcribe_audio h audioBuffer filename w)) =
                 (case write_fault h (tempFilePath_of h filename) of
                    Some m \<Rightarrow> []
                  | None \<Rightarrow> [(tempFilePath_of h filename, audioBuffer)])) \<and>
         audioBlob (captured b chunks pending s) =
           Some \<lparr>blob_data = concat (chunks @ [pending]),
                 blob_type = fst (select_mimeType (isTypeSupported b))\<rparr> \<and>
         (audioFormat (captured b chunks pending s) = ''mp3'' \<or>
          audioFormat (captured b chunks pending s) = ''wav'') \<and>
         conversions (fst (snd (processAudio (electronAPI h) (captured b chunks pending s) w))) =
           conversions w \<and>
         (if startsWith k ''sk-or-''
          then sent_audio w (fst (snd (processAudio (electronAPI h) (captured b chunks pending s) w))) =
                 [(concat (chunks @ [pending]), audioFormat (captured b chunks pending s))] \<and>
               sent_files w (fst (snd (processAudio (electronAPI h) (captured b chunks pending s) w))) = []
          else sent_audio w (fst (snd (processAudio (electronAPI h) (captured b chunks pending s) w))) = [] \<and>
               sent_files w (fst (snd (processAudio (electronAPI h) (captured b chunks pending s) w))) =
                 (case write_fault h
                         (tempFilePath_of h (''recording.'' @ audioFormat (captured b chunks pending s))) of
                    Some m \<Rightarrow> []
                  | None \<Rightarrow>
                      [(tempFilePath_of h (''recording.'' @ audioFormat (captured b chunks pending s)),
                        concat (chunks @ [pending]))]))"
proof -
  let ?s = "captured b chunks pending s"
  have handler: "conversions (snd (transcribe_audio h buf f w)) = conversions w \<and>
         (if startsWith k ''sk-or-''
          then sent_audio w (snd (transcribe_audio h buf f w)) = [(buf, audioFormat_of f)] \<and>
               sent_files w (snd (transcribe_audio h buf f w)) = []
          else sent_audio w (snd (transcribe_audio h buf f w)) = [] \<and>
               sent_files w (snd (transcribe_audio h buf f w)) =
                 (case write_fault h (tempFilePath_of h f) of
                    Some m \<Rightarrow> []
                  | None \<Rightarrow> [(tempFilePath_of h f, buf)]))"
    if "\<not> isWebM f" for buf f
    using assms(1-3) that
    by (simp add: transcribe_audio_configured sent_audio_def sent_files_def new_requests_append
          transcribe_openrouter_requests transcribe_whisper_requests
          transcribe_openrouter_conversions transcribe_whisper_conversions
          split: option.splits)
  have blob: "audioBlob ?s =
           Some \<lparr>blob_data = concat (chunks @ [pending]),
                 blob_type = fst (select_mimeType (isTypeSupported b))\<rparr>"
    and fmt: "audioFormat ?s = fst (snd (select_mimeType (isTypeSupported b)))"
    unfolding captured_def using recording_captured [OF assms(5-7)] by simp_all
  have ext: "audioFormat ?s = ''mp3'' \<or> audioFormat ?s = ''wav''"
    using select_mimeType_supported [OF assms(8)] fmt by simp
  then have name: "\<not> isWebM (''recording.'' @ audioFormat ?s)"
    and tag: "audioFormat_of (''recording.'' @ audioFormat ?s) = audioFormat ?s"
    using not_isWebM_recording_mp3 not_isWebM_recording_wav isMp3_recording_mp3
      not_isMp3_recording_wav
    by (auto simp: audioFormat_of_def)
  let ?data = "concat (chunks @ [pending])"
  let ?name = "''recording.'' @ audioFormat ?s"
  let ?w1 = "snd (transcribe_audio h ?data ?name w)"
  let ?w2 = "fst (snd (processAudio (electronAPI h) ?s w))"
  have p: "sent_audio w ?w2 = sent_audio w ?w1" "sent_files w ?w2 = sent_files w ?w1"
    "conversions ?w2 = conversions ?w1"
    using processAudio_electronAPI [OF blob, where w = w and h = h] by simp_all
  have H1: "conversions (snd (transcribe_audio h audioBuffer filename w)) = conversions w \<and>
         (if startsWith k ''sk-or-''
          then sent_audio w (snd (transcribe_audio h audioBuffer filename w)) =
                 [(audioBuffer, audioFormat_of filename)] \<and>
               sent_files w (snd (transcribe_audio h audioBuffer filename w)) = []
          else sent_audio w (snd (transcribe_audio h audioBuffer filename w)) = [] \<and>
               sent_files w (snd (transcribe_audio h audioBuffer filename w)) =
                 (case write_fault h (tempFilePath_of h filename) of
                    Some m \<Rightarrow> []
                  | None \<Rightarrow> [(tempFilePath_of h filename, audioBuffer)]))"
    by (rule handler [OF assms(4)])
  have H2: "conversions ?w2 = conversions w \<and>
         (if startsWith k ''sk-or-''
          then sent_audio w ?w2 = [(?data, audioFormat ?s)] \<and> sent_files w ?w2 = []
          else sent_audio w ?w2 = [] \<and>
               sent_files w ?w2 =
                 (case write_fault h (tempFilePath_of h ?name) of
                    Some m \<Rightarrow> []
                  | None \<Rightarrow> [(tempFilePath_of h ?name, ?data)]))"
    unfolding p using handler [OF name, of ?data] unfolding tag by assumption
  show ?thesis
    using H1 blob ext H2 by blast
qed

text \<open>The theorem at an MP3 capture sent to provider A.\<close>

theorem wav_and_mp3_submitted_unconverted_witness:
  "hasApiKey openrouter_host \<and> apiKey openrouter_host = Some ''sk-or-v1-0a1b'' \<and>
   ''sk-or-v1-0a1b'' \<noteq> [] \<and> \<not> isWebM ''recording.mp3'' \<and>
   getUserMedia_resolves mp3_browser \<and> start_returns mp3_browser \<and>
   constructor_accepts mp3_browser (fst (select_mimeType (isTypeSupported mp3_browser))) \<and>
   list_ex (isTypeSupported mp3_browser) (map fst preference_order) \<and>
   conversions (snd (transcribe_audio openrouter_host sample_mp3 ''recording.mp3'' sample_world)) = [] \<and>
   sent_audio sample_world
     (snd (transcribe_audio openrouter_host sample_mp3 ''recording.mp3'' sample_world)) =
     [(sample_mp3, ''mp3'')] \<and>
   audioBlob (captured mp3_browser [[0x49, 0x44], []] [0x33] initial_state) =
     Some \<lparr>blob_data = sample_mp3, blob_type = ''audio/mp3''\<rparr> \<and>
   audioFormat (captured mp3_browser [[0x49, 0x44], []] [0x33] initial_state) = ''mp3'' \<and>
   conversions (fst (snd (processAudio (electronAPI openrouter_host)
      (captured mp3_browser [[0x49, 0x44], []] [0x33] initial_state) sample_world))) = [] \<and>
   sent_audio sample_world (fst (snd (processAudio (electronAPI openrouter_host)
      (captured mp3_browser [[0x49, 0x44], []] [0x33] initial_state) sample_world))) =
     [(sample_mp3, ''mp3'')]"
proof -
  have k: "hasApiKey openrouter_host" "apiKey openrouter_host = Some ''sk-or-v1-0a1b''"
    "''sk-or-v1-0a1b'' \<noteq> []"
    by (simp_all add: openrouter_host_def)
  have b: "getUserMedia_resolves mp3_browser" "start_returns mp3_browser"
    "constructor_accepts mp3_browser (fst (select_mimeType (isTypeSupported mp3_browser)))"
    "list_ex (isTypeSupported mp3_browser) (map fst preference_order)"
    by (simp_all add: mp3_browser_def webm_only_browser_def preference_order_def)
  have f: "audioFormat (captured mp3_browser [[0x49, 0x44], []] [0x33] initial_state) = ''mp3''"
    by (simp only: captured_def recording_captured(2) [OF b(1,2,3)]
          select_mimeType_mp3_browser fst_conv snd_conv)
  have d: "concat ([[0x49, 0x44], []] @ [[0x33]]) = sample_mp3"
    by (simp add: sample_mp3_def)
  show ?thesis
    using k b not_isWebM_recording_mp3
      wav_and_mp3_submitted_unconverted [OF k not_isWebM_recording_mp3 b,
        where audioBuffer = sample_mp3 and w = sample_world and chunks = "[[0x49, 0x44], []]"
          and pending = "[0x33]" and s = initial_state]
    unfolding d f
    by (simp add: startsWith_def audioFormat_of_def isMp3_recording_mp3 sample_world_def
          select_mimeType_mp3_browser)
qed

section \<open>The order of preference of the capture encodings (C8)\<close>



section \<open>The fallback answer (C9)\<close>

text \<open>
  Claim C9: when the provider answers the generation request and the content of the
  first choice's message is missing or empty, the handler returns the fixed fallback
  answer, which is not empty, as a successful result.
\<close>

theorem generate_behavioral_answer_fallback:
  assumes "hasApiKey h" and "apiKey h = Some k" and "k \<noteq> []"
    and "chat_completions h (generation_request h k question) = Inr c"
    and "first_content c = None \<or> first_content c = Some []"
  shows "fst (generate_behavioral_answer h question w) = Inr fallback_answer \<and>
         fallback_answer \<noteq> []"
  using assms by (auto simp: generate_configured or_else_def fallback_answer_def)

text \<open>The theorem at a reply whose first message has no content.\<close>

theorem generate_behavioral_answer_fallback_witness:
  "hasApiKey empty_reply_host \<and> apiKey empty_reply_host = Some ''sk-or-v1-0a1b'' \<and>
   ''sk-or-v1-0a1b'' \<noteq> [] \<and>
   chat_completions empty_reply_host
     (generation_request empty_reply_host ''sk-or-v1-0a1b'' ''Tell me about yourself.'') =
     Inr [Choice (Some (Message None))] \<and>
   first_content [Choice (Some (Message None))] = None \<and>
   fst (generate_behavioral_answer empty_reply_host ''Tell me about yourself.'' sample_world) =
     Inr fallback_answer \<and>
   fallback_answer \<noteq> []"
proof -
  have k: "hasApiKey empty_reply_host" "apiKey empty_reply_host = Some ''sk-or-v1-0a1b''"
    "''sk-or-v1-0a1b'' \<noteq> []"
    by (simp_all add: empty_reply_host_def openrouter_host_def)
  have r: "chat_completions empty_reply_host
     (generation_request empty_reply_host ''sk-or-v1-0a1b'' ''Tell me about yourself.'') =
     Inr [Choice (Some (Message None))]"
    by (simp add: empty_reply_host_def)
  have c: "first_content [Choice (Some (Message None))] = None \<or>
           first_content [Choice (Some (Message None))] = Some []"
    by (simp add: first_content_def)
  show ?thesis
    using k r generate_behavioral_answer_fallback [OF k r c, where w = sample_world]
    by (simp add: first_content_def)
qed

section \<open>The format tag comes from the filename (C10)\<close>

text \<open>
  Against claim C10 as stated: it speaks of every call, and a call with a key of
  provider B triggers no conversion although the lowercased filename contains
  \<open>webm\<close>.
\<close>

theorem no_conversion_on_provider_B_counterexample:
  "includes_str (toLowerCase ''recording.webm'') ''webm'' \<and>
   conversions (snd (transcribe_audio openai_host sample_webm ''recording.webm'' sample_world)) =
     conversions sample_world"
  using isWebM_recording_webm by (simp add: openai_host_evaluated isWebM_def)

text \<open>
  Claim C10, amended: on the provider-A path the conversion and the format tag depend
  on the filename alone, never on the buffer. The conversion is triggered exactly when
  the lowercased filename contains \<open>webm\<close>, and the tag sent is then \<open>wav\<close>; otherwise
  the buffer is sent unconverted, tagged \<open>mp3\<close> exactly when the lowercased filename
  ends with \<open>.mp3\<close> and \<open>wav\<close> if not, whatever its encoding. On the provider-B path
  no conversion is triggered and no tag is sent.
\<close>

theorem format_from_filename_on_provider_A:
  assumes "hasApiKey h" and "apiKey h = Some k" and "k \<noteq> []"
  shows "(if startsWith k ''sk-or-''
          then conversions (snd (transcribe_audio h audioBuffer filename w)) =
                 conversions w @
                 (if includes_str (toLowerCase filename) ''webm'' then [audioBuffer] else []) \<and>
               concat (map audio_tags
                 (new_requests w (snd (transcribe_audio h audioBuffer filename w)))) =
                 (if includes_str (toLowerCase filename) ''webm''
                  then (if isl (fst (convertWebMToWAV h audioBuffer w)) then [] else [''wav''])
                  else if endsWith (toLowerCase filename) ''.mp3'' then [''mp3'']
                  else [''wav'']) \<and>
               (if includes_str (toLowerCase filename) ''webm''
                then True
                else new_requests w (snd (transcribe_audio h audioBuffer filename w)) =
                       [ChatCompletions
                          (openrouter_audio_request k audioBuffer
                             (if endsWith (toLowerCase filename) ''.mp3'' then ''mp3'' else ''wav''))])
          else conversions (snd (transcribe_audio h audioBuffer filename w)) = conversions w \<and>
               concat (map audio_tags
                 (new_requests w (snd (transcribe_audio h audioBuffer filename w)))) = [])"
  using assms
  by (auto simp: transcribe_audio_configured new_requests_append
        transcribe_openrouter_requests transcribe_whisper_requests
        transcribe_openrouter_conversions transcribe_whisper_conversions
        audio_tags_def openrouter_audio_request_def isWebM_def isMp3_def audioFormat_of_def
        split: sum.splits option.splits)

text \<open>
  The theorem on the provider-A path at a buffer that holds WebM under a name that
  says neither: it goes out unconverted with the tag \<open>wav\<close>.
\<close>

theorem format_from_filename_on_provider_A_witness:
  "hasApiKey openrouter_host \<and> apiKey openrouter_host = Some ''sk-or-v1-0a1b'' \<and>
   ''sk-or-v1-0a1b'' \<noteq> [] \<and> startsWith ''sk-or-v1-0a1b'' ''sk-or-'' \<and>
   conversions (snd (transcribe_audio openrouter_host sample_webm ''recording.ogg'' sample_world)) = [] \<and>
   new_requests sample_world
     (snd (transcribe_audio openrouter_host sample_webm ''recording.ogg'' sample_world)) =
     [ChatCompletions (openrouter_audio_request ''sk-or-v1-0a1b'' sample_webm ''wav'')]"
proof -
  have k: "hasApiKey openrouter_host" "apiKey openrouter_host = Some ''sk-or-v1-0a1b''"
    "''sk-or-v1-0a1b'' \<noteq> []"
    by (simp_all add: openrouter_host_def)
  have f: "\<not> includes_str (toLowerCase ''recording.ogg'') ''webm''"
    "\<not> endsWith (toLowerCase ''recording.ogg'') ''.mp3''"
    by (simp_all add: toLowerCase_def toLowerCase_char_def case_table_def startsWith_def
          endsWith_def)
  show ?thesis
    using k f format_from_filename_on_provider_A [OF k, where w = sample_world
        and audioBuffer = sample_webm and filename = "''recording.ogg''"]
    by (simp add: startsWith_def sample_world_def)
qed

end
